theory Spec2Isabelle
  imports Main
begin

section \<open>Identifiers and the Money interface\<close>

text \<open>
  Identifiers are the strings the server passes to SQL; a frame index is a number.
\<close>

type_synonym TransactionId = string
type_synonym SplitId = string
type_synonym GroupId = string
type_synonym UserId = string
type_synonym CategoryId = string
type_synonym FrameIndex = int

text \<open>
  The class \<^verbatim>\<open>Money\<close> (shared/Money) is used by the handlers and by frames.ts through
  its methods only. Its implementation is taken as a parameter: a record of the operations
  the source calls. \<open>Money_isValid\<close> takes the optional argument \<^verbatim>\<open>allowNegative\<close>
  (\<open>None\<close> when the call passes none).
\<close>

record 'm Money_ops =
  Money_Zero :: 'm
  Money_new :: "string \<Rightarrow> 'm"
  Money_string :: "'m \<Rightarrow> string"
  Money_plus :: "'m \<Rightarrow> 'm \<Rightarrow> 'm"
  Money_minus :: "'m \<Rightarrow> 'm \<Rightarrow> 'm"
  Money_sum :: "'m list \<Rightarrow> 'm"
  Money_isValid :: "bool option \<Rightarrow> 'm \<Rightarrow> bool"

section \<open>The relational state\<close>

text \<open>
  One record per table, with the columns the statements of the source name. Monetary
  columns hold decimal strings. A table is the list of its rows in insertion order.
  The tables that only the modules outside this development touch (users, friendships,
  balances) are the field \<open>other_tables\<close>.
\<close>

record transactions_row =
  t_id :: TransactionId
  t_gid :: GroupId
  t_frame :: FrameIndex
  t_amount :: string
  t_description :: string
  t_category :: "CategoryId option"
  t_date :: string
  t_alive :: bool

record shared_transactions_row =
  s_id :: SplitId
  s_payer :: "UserId option"
  s_settled :: bool

record transaction_splits_row =
  ts_tid :: TransactionId
  ts_sid :: SplitId
  ts_share :: string

record frames_row =
  f_gid :: GroupId
  f_index :: FrameIndex
  f_income :: string
  f_ghost :: bool

record categories_row =
  c_id :: CategoryId
  c_gid :: GroupId
  c_frame :: FrameIndex
  c_name :: string
  c_ordering :: int
  c_budget :: string
  c_ghost :: bool
  c_alive :: bool

record 'x database =
  transactions :: "transactions_row list"
  shared_transactions :: "shared_transactions_row list"
  transaction_splits :: "transaction_splits_row list"
  frames :: "frames_row list"
  categories :: "categories_row list"
  other_tables :: 'x

text \<open>
  pg-promise's \<^verbatim>\<open>oneOrNone\<close> resolves with null for no row, with the row for one row and
  rejects for more than one. The outer \<open>None\<close> is the rejection.
\<close>

fun oneOrNone :: "'r list \<Rightarrow> 'r option option" where
  "oneOrNone [] = Some None"
| "oneOrNone [r] = Some (Some r)"
| "oneOrNone (r # r' # rs) = None"

section \<open>Frames (src/server/frames.ts)\<close>

record 'm Category =
  cat_id :: CategoryId
  cat_gid :: GroupId
  cat_frame :: FrameIndex
  cat_name :: string
  cat_ordering :: int
  cat_budget :: 'm
  cat_balance :: "'m option"
  cat_ghost :: bool
  cat_alive :: bool

record 'm Frame =
  frame_gid :: GroupId
  frame_index :: FrameIndex
  frame_balance :: "'m option"
  frame_income :: 'm
  frame_ghost :: bool
  frame_spending :: "'m option"
  frame_categories :: "'m Category list option"

text \<open>
  Modelled from the spec: \<^verbatim>\<open>categories.fromSerialized\<close> (server/categories) is not part of
  the sources at hand. The spec gives a category the attributes id, group, frame, name,
  ordering, budget, balance, ghost flag and alive flag, and stores monetary values as decimal
  strings: the row's columns are copied, the budget is read as Money, and the balance is
  absent until \<open>getCategories\<close> attaches it.
\<close>

definition categories_fromSerialized :: "'m Money_ops \<Rightarrow> categories_row \<Rightarrow> 'm Category" where
  "categories_fromSerialized M row =
     \<lparr>cat_id = c_id row, cat_gid = c_gid row, cat_frame = c_frame row, cat_name = c_name row,
      cat_ordering = c_ordering row, cat_budget = Money_new M (c_budget row),
      cat_balance = None, cat_ghost = c_ghost row, cat_alive = c_alive row\<rparr>"

text \<open>
  Modelled from the spec: \<^verbatim>\<open>shared.fromSerialized\<close> (shared/frames) is not part of the
  sources at hand. A frame is keyed by (group id, index) and has an income and a ghost flag;
  balance, spending and categories are rollups that the server attaches.
\<close>

definition frames_fromSerialized :: "'m Money_ops \<Rightarrow> frames_row \<Rightarrow> 'm Frame" where
  "frames_fromSerialized M row =
     \<lparr>frame_gid = f_gid row, frame_index = f_index row, frame_balance = None,
      frame_income = Money_new M (f_income row), frame_ghost = f_ghost row,
      frame_spending = None, frame_categories = None\<rparr>"

section \<open>Objects of the server (shared/types, shared/api)\<close>

record User =
  uid :: UserId

record Friend =
  friend_uid :: UserId
  friend_gid :: GroupId

record 'm Split =
  split_id :: SplitId
  split_with :: Friend
  split_settled :: bool
  split_myShare :: 'm
  split_theirShare :: 'm
  split_otherAmount :: 'm
  split_payer :: "UserId option"

record 'm Transaction =
  trans_id :: TransactionId
  trans_gid :: GroupId
  trans_frame :: FrameIndex
  trans_category :: "CategoryId option"
  trans_amount :: 'm
  trans_description :: string
  trans_alive :: bool
  trans_date :: string
  trans_split :: "'m Split option"

text \<open>The field \<^verbatim>\<open>split\<close> of an \<^verbatim>\<open>AddTransactionRequest\<close>.\<close>

record 'm SplitRequest =
  sr_with :: UserId
  sr_iPaid :: bool
  sr_otherAmount :: 'm
  sr_myShare :: 'm
  sr_theirShare :: 'm

record 'm AddTransactionRequest =
  atr_frame :: FrameIndex
  atr_amount :: 'm
  atr_description :: string
  atr_category :: "CategoryId option"
  atr_date :: string
  atr_split :: "'m SplitRequest option"

record DeleteTransactionRequest =
  dtr_id :: TransactionId

text \<open>
  The requests of the four field updates have the transaction id and the field's value:
  \<^verbatim>\<open>request.id\<close> and \<^verbatim>\<open>request[field]\<close>.
\<close>

record 'v UpdateRequest =
  ur_id :: TransactionId
  ur_value :: 'v

record 'm TransactionSplitRequest =
  tsr_tid :: TransactionId
  tsr_sid :: SplitId
  tsr_total :: 'm
  tsr_myShare :: 'm
  tsr_theirShare :: 'm
  tsr_iPaid :: bool

section \<open>The modules outside this development\<close>

text \<open>
  The handlers and frames.ts call into modules whose sources are not at hand:
  shared/transactions, shared/util, server/categories, server/user, server/transactions and
  server/payments. What is used of them is taken as a parameter, one field per function:
  a query is a function of the database state, a statement returns the new state. A lookup
  that has to find its row (\<open>user_getFriend\<close>, \<open>transactions_getTransaction\<close>,
  \<open>transactions_getOtherTid\<close>, \<open>transactions_getUser\<close>, \<open>transactions_getBalanceFromDb\<close>)
  returns \<open>None\<close> when the awaited call rejects or yields nothing the caller can use.
  \<open>randomId\<close> stands for \<^verbatim>\<open>util.randomId()\<close>: the identifier the n-th call of a
  request produces.
\<close>

record ('m, 'x) modules =
  distributeTotal :: "'m \<Rightarrow> 'm \<Rightarrow> 'm \<Rightarrow> 'm \<times> 'm"
  randomId :: "nat \<Rightarrow> string"
  categories_getSpending :: "CategoryId \<Rightarrow> FrameIndex \<Rightarrow> 'x database \<Rightarrow> 'm"
  DEFAULT_CATEGORIES :: "string list"
  user_isFriend :: "UserId \<Rightarrow> UserId \<Rightarrow> 'x database \<Rightarrow> bool"
  user_getDefaultGroup :: "User \<Rightarrow> 'x database \<Rightarrow> GroupId"
  user_getFriend :: "UserId \<Rightarrow> 'x database \<Rightarrow> Friend option"
  transactions_canUserEdit :: "TransactionId \<Rightarrow> UserId \<Rightarrow> 'x database \<Rightarrow> bool"
  transactions_deleteTransaction :: "TransactionId \<Rightarrow> 'x database \<Rightarrow> 'x database"
  transactions_getTransaction :: "TransactionId \<Rightarrow> 'x database \<Rightarrow> 'm Transaction option"
  transactions_getOtherTid :: "TransactionId \<Rightarrow> SplitId \<Rightarrow> 'x database \<Rightarrow> TransactionId option"
  transactions_getUser :: "TransactionId \<Rightarrow> 'x database \<Rightarrow> UserId option"
  transactions_getBalanceFromDb :: "TransactionId \<Rightarrow> 'x database \<Rightarrow> 'm option"
  transactions_getBalance :: "UserId \<Rightarrow> UserId \<Rightarrow> 'm \<Rightarrow> 'm \<Rightarrow> UserId option \<Rightarrow> 'm"
  payments_addToBalance :: "UserId \<Rightarrow> UserId \<Rightarrow> 'm \<Rightarrow> 'x database \<Rightarrow> 'x database"

section \<open>Queries of frames.ts\<close>

text \<open>
  \<^verbatim>\<open>getBalance\<close>: both queries are \<^verbatim>\<open>manyOrNone\<close>, which resolves with an array (empty
  when no row matches), so the test \<^verbatim>\<open>rows ? ... : Money.Zero\<close> always takes its first
  branch.
\<close>

definition getBalance :: "'m Money_ops \<Rightarrow> GroupId \<Rightarrow> FrameIndex \<Rightarrow> 'x database \<Rightarrow> 'm" where
  "getBalance M gid index db =
     (let rows = filter (\<lambda>r. t_gid r = gid \<and> t_frame r \<le> index \<and> t_alive r) (transactions db);
          totalSpent = Money_sum M (map (\<lambda>r. Money_new M (t_amount r)) rows);
          rows' = filter (\<lambda>r. f_gid r = gid \<and> f_index r \<le> index) (frames db);
          totalIncome = Money_sum M (map (\<lambda>r. Money_new M (f_income r)) rows')
      in Money_minus M totalIncome totalSpent)"

definition getSpending :: "'m Money_ops \<Rightarrow> GroupId \<Rightarrow> FrameIndex \<Rightarrow> 'x database \<Rightarrow> 'm" where
  "getSpending M gid frame db =
     (let rows = filter (\<lambda>r. t_gid r = gid \<and> t_frame r = frame \<and> t_alive r) (transactions db)
      in Money_sum M (map (\<lambda>r. Money_new M (t_amount r)) rows))"

text \<open>
  \<^verbatim>\<open>getCategories\<close>: the rows of the group and frame whose alive column is true, in
  ascending order of the ordering column (rows with equal ordering keep their table order),
  each deserialized and given its balance.
\<close>

definition getCategories ::
  "'m Money_ops \<Rightarrow> ('m, 'x) modules \<Rightarrow> GroupId \<Rightarrow> FrameIndex \<Rightarrow> 'x database
     \<Rightarrow> 'm Category list" where
  "getCategories M C gid frame db =
     (let rows = sort_key c_ordering
                   (filter (\<lambda>r. c_gid r = gid \<and> c_frame r = frame \<and> c_alive r) (categories db))
      in map (\<lambda>row.
            let category = categories_fromSerialized M row
            in category\<lparr>cat_balance :=
                 Some (Money_minus M (cat_budget category)
                         (categories_getSpending C (cat_id category) frame db))\<rparr>) rows)"

text \<open>
  \<^verbatim>\<open>getPreviousFrame\<close>: the frame row of the group with the greatest index below the given
  one (\<^verbatim>\<open>order by index desc limit 1\<close>), deserialized; null when there is none.
\<close>

definition getPreviousFrame ::
  "'m Money_ops \<Rightarrow> GroupId \<Rightarrow> FrameIndex \<Rightarrow> 'x database \<Rightarrow> 'm Frame option option" where
  "getPreviousFrame M gid index db =
     map_option (map_option (frames_fromSerialized M))
       (oneOrNone (take 1 (rev (sort_key f_index
          (filter (\<lambda>r. f_gid r = gid \<and> f_index r < index) (frames db))))))"

definition deleteGhost :: "GroupId \<Rightarrow> FrameIndex \<Rightarrow> 'x database \<Rightarrow> 'x database" where
  "deleteGhost gid index db =
     (let db1 = db\<lparr>categories :=
                  filter (\<lambda>r. \<not> (c_gid r = gid \<and> c_frame r = index \<and> c_ghost r)) (categories db)\<rparr>
      in db1\<lparr>frames :=
               filter (\<lambda>r. \<not> (f_gid r = gid \<and> f_index r = index \<and> f_ghost r)) (frames db1)\<rparr>)"

definition markNotGhost :: "GroupId \<Rightarrow> FrameIndex \<Rightarrow> 'x database \<Rightarrow> 'x database" where
  "markNotGhost gid index db =
     (let db1 = db\<lparr>frames :=
                  map (\<lambda>r. if f_gid r = gid \<and> f_index r = index then r\<lparr>f_ghost := False\<rparr> else r)
                    (frames db)\<rparr>
      in db1\<lparr>categories :=
               map (\<lambda>r. if c_gid r = gid \<and> c_frame r = index then r\<lparr>c_ghost := False\<rparr> else r)
                 (categories db1)\<rparr>)"

definition getIncome :: "'m Money_ops \<Rightarrow> GroupId \<Rightarrow> FrameIndex \<Rightarrow> 'x database \<Rightarrow> 'm option" where
  "getIncome M gid index db =
     map_option (\<lambda>row. case row of Some r \<Rightarrow> Money_new M (f_income r) | None \<Rightarrow> Money_Zero M)
       (oneOrNone (filter (\<lambda>r. f_gid r = gid \<and> f_index r = index) (frames db)))"

text \<open>
  The two inserts of \<^verbatim>\<open>getOrCreateFrameInner\<close>. The statement for categories names no
  alive column: the row takes the column's default, taken to be true as for transactions,
  which \<^verbatim>\<open>handle_transaction_post\<close> inserts the same way and returns with
  \<^verbatim>\<open>alive: true\<close>.
\<close>

definition insert_frame :: "'m Money_ops \<Rightarrow> 'm Frame \<Rightarrow> 'x database \<Rightarrow> 'x database" where
  "insert_frame M frame db =
     db\<lparr>frames := frames db @
          [\<lparr>f_gid = frame_gid frame, f_index = frame_index frame,
            f_income = Money_string M (frame_income frame), f_ghost = True\<rparr>]\<rparr>"

definition insert_categories :: "'m Money_ops \<Rightarrow> 'm Category list \<Rightarrow> 'x database \<Rightarrow> 'x database" where
  "insert_categories M cs db =
     db\<lparr>categories := categories db @
          map (\<lambda>c. \<lparr>c_id = cat_id c, c_gid = cat_gid c, c_frame = cat_frame c, c_name = cat_name c,
                     c_ordering = cat_ordering c, c_budget = Money_string M (cat_budget c),
                     c_ghost = True, c_alive = True\<rparr>) cs\<rparr>"

text \<open>
  The categories of a group with no previous frame: one per default name, in order, the
  i-th with ordering i, a fresh identifier and a zero budget.
\<close>

definition default_categories ::
  "'m Money_ops \<Rightarrow> ('m, 'x) modules \<Rightarrow> GroupId \<Rightarrow> FrameIndex \<Rightarrow> 'x database \<Rightarrow> 'm Category list" where
  "default_categories M C gid index db =
     map (\<lambda>(i, c).
           let id = randomId C i
           in \<lparr>cat_id = id, cat_gid = gid, cat_frame = index, cat_name = c,
               cat_ordering = int i, cat_budget = Money_Zero M,
               cat_balance = Some (Money_minus M (Money_Zero M) (categories_getSpending C id index db)),
               cat_ghost = True, cat_alive = True\<rparr>)
         (enumerate 0 (DEFAULT_CATEGORIES C))"

text \<open>
  \<^verbatim>\<open>getOrCreateFrameInner\<close> returns the frame and the new database state, or \<open>None\<close>
  when a query rejects.
\<close>

definition getOrCreateFrameInner ::
  "'m Money_ops \<Rightarrow> ('m, 'x) modules \<Rightarrow> GroupId \<Rightarrow> FrameIndex \<Rightarrow> 'x database
     \<Rightarrow> ('m Frame \<times> 'x database) option" where
  "getOrCreateFrameInner M C gid index db =
     (case oneOrNone (filter (\<lambda>r. f_gid r = gid \<and> f_index r = index \<and> \<not> f_ghost r) (frames db)) of
        None \<Rightarrow> None
      | Some (Some row) \<Rightarrow>
          Some ((frames_fromSerialized M row)
                  \<lparr>frame_categories := Some (getCategories M C gid index db),
                   frame_balance := Some (getBalance M gid index db),
                   frame_spending := Some (getSpending M gid index db)\<rparr>, db)
      | Some None \<Rightarrow>
          (let db1 = deleteGhost gid index db;
               frame = \<lparr>frame_gid = gid, frame_index = index, frame_balance = Some (Money_Zero M),
                        frame_income = Money_Zero M, frame_ghost = True,
                        frame_spending = None, frame_categories = None\<rparr>;
               frame = frame\<lparr>frame_spending := Some (getSpending M gid index db1)\<rparr>;
               balance = getBalance M gid index db1;
               frame = frame\<lparr>frame_balance := Some balance\<rparr>
           in case getPreviousFrame M gid index db1 of
                None \<Rightarrow> None
              | Some prev \<Rightarrow>
                  (let frame =
                         (case prev of
                            Some prevFrame \<Rightarrow>
                              frame\<lparr>frame_income := frame_income prevFrame,
                                    frame_categories :=
                                      Some (map (\<lambda>c. c\<lparr>cat_frame := frame_index frame\<rparr>)
                                              (getCategories M C gid (frame_index prevFrame) db1)),
                                    frame_balance :=
                                      Some (Money_plus M balance (frame_income prevFrame))\<rparr>
                          | None \<Rightarrow>
                              frame\<lparr>frame_categories :=
                                      Some (default_categories M C gid index db1)\<rparr>);
                       db2 = insert_frame M frame db1;
                       db3 = insert_categories M (case frame_categories frame of Some cs \<Rightarrow> cs | None \<Rightarrow> []) db2
                   in Some (frame, db3))))"

section \<open>The transaction handlers\<close>

text \<open>
  What a handler's promise settles to: a status code with no body, a body, or a rejection.
  \<open>Thrown\<close> is an exception raised before any promise is made.
\<close>

datatype 'b reply = StatusCode nat | Body 'b | Rejected | Thrown

text \<open>
  \<^verbatim>\<open>db.tx\<close> runs its callback in a database transaction: when the callback returns, its
  writes are committed; when an awaited call rejects (\<open>None\<close>), they are rolled back.
\<close>

definition tx :: "('x database \<Rightarrow> ('b reply \<times> 'x database) option) \<Rightarrow> 'x database
                    \<Rightarrow> 'b reply \<times> 'x database" where
  "tx body db = (case body db of None \<Rightarrow> (Rejected, db) | Some r \<Rightarrow> r)"

text \<open>JavaScript's truthiness of a string, of a possibly missing string, and \<^verbatim>\<open>c || null\<close>.\<close>

definition truthy :: "string \<Rightarrow> bool" where
  "truthy s = (s \<noteq> [])"

definition truthy_opt :: "string option \<Rightarrow> bool" where
  "truthy_opt s = (case s of None \<Rightarrow> False | Some v \<Rightarrow> truthy v)"

definition or_null :: "string option \<Rightarrow> string option" where
  "or_null c = (if truthy_opt c then c else None)"

text \<open>
  The insert into transactions of \<^verbatim>\<open>handle_transaction_post\<close>; the alive column is not
  named and takes its default, true.
\<close>

definition insert_transaction ::
  "TransactionId \<Rightarrow> GroupId \<Rightarrow> FrameIndex \<Rightarrow> string \<Rightarrow> string \<Rightarrow> CategoryId option \<Rightarrow> string
     \<Rightarrow> 'x database \<Rightarrow> 'x database" where
  "insert_transaction i gid frame amount description category date db =
     db\<lparr>transactions := transactions db @
          [\<lparr>t_id = i, t_gid = gid, t_frame = frame, t_amount = amount,
            t_description = description, t_category = category, t_date = date,
            t_alive = True\<rparr>]\<rparr>"

definition insert_shared_transaction :: "SplitId \<Rightarrow> UserId option \<Rightarrow> 'x database \<Rightarrow> 'x database" where
  "insert_shared_transaction sid payer db =
     db\<lparr>shared_transactions := shared_transactions db @
          [\<lparr>s_id = sid, s_payer = payer, s_settled = True\<rparr>]\<rparr>"

definition insert_transaction_split ::
  "TransactionId \<Rightarrow> SplitId \<Rightarrow> string \<Rightarrow> 'x database \<Rightarrow> 'x database" where
  "insert_transaction_split tid sid share db =
     db\<lparr>transaction_splits := transaction_splits db @
          [\<lparr>ts_tid = tid, ts_sid = sid, ts_share = share\<rparr>]\<rparr>"

text \<open>The callback that \<^verbatim>\<open>handle_transaction_post\<close> passes to \<^verbatim>\<open>db.tx\<close>.\<close>

definition handle_transaction_post_tx ::
  "'m Money_ops \<Rightarrow> ('m, 'x) modules \<Rightarrow> 'm AddTransactionRequest \<Rightarrow> User \<Rightarrow> 'x database
     \<Rightarrow> ('m Transaction reply \<times> 'x database) option" where
  "handle_transaction_post_tx M S request actor db =
     (let other = map_option sr_with (atr_split request);
          payer = (case atr_split request of
                     None \<Rightarrow> None
                   | Some split \<Rightarrow> if sr_iPaid split then Some (uid actor) else other);
          tx_id = randomId S 0
      in if (case other of None \<Rightarrow> False
             | Some other' \<Rightarrow> truthy other' \<and> \<not> user_isFriend S (uid actor) other' db)
         then Some (StatusCode 400, db)
         else
           (let gid = user_getDefaultGroup S actor db;
                db1 = insert_transaction tx_id gid (atr_frame request)
                        (Money_string M (atr_amount request)) (atr_description request)
                        (or_null (atr_category request)) (atr_date request) db;
                transaction = \<lambda>split.
                  \<lparr>trans_id = tx_id, trans_gid = gid, trans_frame = atr_frame request,
                   trans_category = atr_category request, trans_amount = atr_amount request,
                   trans_description = atr_description request, trans_alive = True,
                   trans_date = atr_date request, trans_split = split\<rparr>
            in case atr_split request of
                 Some rsplit \<Rightarrow>
                   if truthy (sr_with rsplit) then
                     (let other_id = randomId S 1
                      in case user_getFriend S (sr_with rsplit) db1 of
                           None \<Rightarrow> None
                         | Some other_friend \<Rightarrow>
                             (let other_gid = friend_gid other_friend;
                                  other_cat = None;
                                  sid = randomId S 2;
                                  split = \<lparr>split_id = sid, split_with = other_friend,
                                           split_settled = False,
                                           split_myShare = sr_myShare rsplit,
                                           split_theirShare = sr_theirShare rsplit,
                                           split_otherAmount = sr_otherAmount rsplit,
                                           split_payer = payer\<rparr>;
                                  balance = transactions_getBalance S (uid actor) (sr_with rsplit)
                                              (atr_amount request) (sr_otherAmount rsplit) payer;
                                  db2 = payments_addToBalance S (uid actor) (sr_with rsplit) balance db1;
                                  db3 = insert_transaction other_id other_gid (atr_frame request)
                                          (Money_string M (sr_otherAmount rsplit))
                                          (atr_description request) other_cat (atr_date request) db2;
                                  db4 = insert_shared_transaction sid payer db3;
                                  db5 = insert_transaction_split tx_id sid
                                          (Money_string M (sr_myShare rsplit)) db4;
                                  db6 = insert_transaction_split other_id sid
                                          (Money_string M (sr_theirShare rsplit)) db5
                              in Some (Body (transaction (Some split)), db6)))
                   else Some (Body (transaction None), db1)
               | None \<Rightarrow> Some (Body (transaction None), db1)))"

text \<open>
  \<^verbatim>\<open>handle_transaction_post\<close>: the three returns of lines 15 to 31 come before the
  database transaction is opened.
\<close>

definition handle_transaction_post ::
  "'m Money_ops \<Rightarrow> ('m, 'x) modules \<Rightarrow> 'm AddTransactionRequest \<Rightarrow> User \<Rightarrow> 'x database
     \<Rightarrow> 'm Transaction reply \<times> 'x database" where
  "handle_transaction_post M S request actor db =
     (if \<not> Money_isValid M (Some False) (atr_amount request) then (StatusCode 400, db)
      else if (case atr_split request of
                 None \<Rightarrow> False
               | Some split \<Rightarrow>
                   \<not> Money_isValid M (Some False) (sr_otherAmount split) \<or>
                   \<not> Money_isValid M (Some False) (sr_myShare split) \<or>
                   \<not> Money_isValid M (Some False) (sr_theirShare split))
      then (StatusCode 400, db)
      else if (case atr_split request of
                 None \<Rightarrow> False
               | Some split \<Rightarrow>
                   (let total = Money_plus M (atr_amount request) (sr_otherAmount split);
                        (calcAmount, calcOtherAmount) =
                           distributeTotal S total (sr_myShare split) (sr_theirShare split)
                    in Money_string M calcAmount \<noteq> Money_string M (atr_amount request) \<or>
                       Money_string M calcOtherAmount \<noteq> Money_string M (sr_otherAmount split)))
      then (StatusCode 400, db)
      else tx (handle_transaction_post_tx M S request actor) db)"

datatype txField = F_amount | F_date | F_description | F_category

definition isSharedField :: "txField \<Rightarrow> bool" where
  "isSharedField field = (field = F_date \<or> field = F_description)"

definition canEditShared :: "txField \<Rightarrow> bool" where
  "canEditShared field = (field \<noteq> F_amount)"

definition handle_transaction_delete ::
  "('m, 'x) modules \<Rightarrow> DeleteTransactionRequest \<Rightarrow> User \<Rightarrow> 'x database
     \<Rightarrow> unit reply \<times> 'x database" where
  "handle_transaction_delete S request actor db =
     tx (\<lambda>t. if \<not> transactions_canUserEdit S (dtr_id request) (uid actor) t
              then Some (StatusCode 400, t)
              else (let t1 = transactions_deleteTransaction S (dtr_id request) t
                    in Some (StatusCode 204, t1))) db"

text \<open>
  \<^verbatim>\<open>update transactions set <field> = $1 where id = $2\<close>. The value is a string or null.
  The columns amount, date and description hold strings here, so a null written to one of
  them is a statement that fails (\<open>None\<close>); of the four callers only the one for category
  can produce a null.
\<close>

fun write_column :: "txField \<Rightarrow> string \<Rightarrow> transactions_row \<Rightarrow> transactions_row" where
  "write_column F_amount v r = r\<lparr>t_amount := v\<rparr>"
| "write_column F_date v r = r\<lparr>t_date := v\<rparr>"
| "write_column F_description v r = r\<lparr>t_description := v\<rparr>"
| "write_column F_category v r = r\<lparr>t_category := Some v\<rparr>"

definition set_column :: "txField \<Rightarrow> string option \<Rightarrow> (transactions_row \<Rightarrow> transactions_row) option" where
  "set_column field val =
     (case val of
        Some v \<Rightarrow> Some (write_column field v)
      | None \<Rightarrow> if field = F_category then Some (\<lambda>r. r\<lparr>t_category := None\<rparr>) else None)"

definition update_transactions ::
  "(transactions_row \<Rightarrow> transactions_row) \<Rightarrow> TransactionId \<Rightarrow> 'x database \<Rightarrow> 'x database" where
  "update_transactions upd i db =
     db\<lparr>transactions := map (\<lambda>r. if t_id r = i then upd r else r) (transactions db)\<rparr>"

definition update_transactions_set ::
  "txField \<Rightarrow> string option \<Rightarrow> TransactionId \<Rightarrow> 'x database \<Rightarrow> 'x database option" where
  "update_transactions_set field val i db =
     map_option (\<lambda>upd. update_transactions upd i db) (set_column field val)"

text \<open>
  \<^verbatim>\<open>handle_transaction_update_post\<close> is generic in the type \<open>'v\<close> of the field's value.
  \<open>typeof_string\<close> is the test \<^verbatim>\<open>typeof value == "string"\<close>: it gives the string when
  the value is one. \<open>isValid\<close> and \<open>transform\<close> are the optional arguments.
\<close>

definition handle_transaction_update_post ::
  "('m, 'x) modules \<Rightarrow> ('v \<Rightarrow> string option) \<Rightarrow> txField \<Rightarrow> 'v UpdateRequest \<Rightarrow> User
     \<Rightarrow> ('v \<Rightarrow> bool) option \<Rightarrow> ('v \<Rightarrow> string option) option \<Rightarrow> 'x database
     \<Rightarrow> unit reply \<times> 'x database" where
  "handle_transaction_update_post S typeof_string field request actor isValid transform db =
     (let val = ur_value request;
          isValid' = (case isValid of None \<Rightarrow> (\<lambda>_. True) | Some p \<Rightarrow> p)
      in if transform = None \<and> typeof_string val = None then (Thrown, db)
         else
           (let transform' = (case transform of None \<Rightarrow> typeof_string | Some f \<Rightarrow> f)
            in if \<not> isValid' val then (StatusCode 400, db)
               else
                 (let updateLinked = isSharedField field;
                      i = ur_id request
                  in tx (\<lambda>t.
                       case transactions_getTransaction S i t of
                         None \<Rightarrow> None
                       | Some existing \<Rightarrow>
                           if trans_gid existing \<noteq> user_getDefaultGroup S actor t
                           then Some (StatusCode 401, t)
                           else if trans_split existing \<noteq> None \<and> \<not> canEditShared field
                           then Some (StatusCode 400, t)
                           else
                             (let v = transform' val
                              in case update_transactions_set field v i t of
                                   None \<Rightarrow> None
                                 | Some t1 \<Rightarrow>
                                     (case trans_split existing of
                                        Some split \<Rightarrow>
                                          if updateLinked then
                                            (case transactions_getOtherTid S i (split_id split) t1 of
                                               None \<Rightarrow> None
                                             | Some otherTid \<Rightarrow>
                                                 (case update_transactions_set field v otherTid t1 of
                                                    None \<Rightarrow> None
                                                  | Some t2 \<Rightarrow> Some (StatusCode 204, t2)))
                                          else Some (StatusCode 204, t1)
                                      | None \<Rightarrow> Some (StatusCode 204, t1)))) db)))"

definition handle_transaction_description_post ::
  "('m, 'x) modules \<Rightarrow> string UpdateRequest \<Rightarrow> User \<Rightarrow> 'x database \<Rightarrow> unit reply \<times> 'x database" where
  "handle_transaction_description_post S request actor db =
     handle_transaction_update_post S Some F_description request actor (Some truthy) None db"

definition handle_transaction_amount_post ::
  "'m Money_ops \<Rightarrow> ('m, 'x) modules \<Rightarrow> 'm UpdateRequest \<Rightarrow> User \<Rightarrow> 'x database
     \<Rightarrow> unit reply \<times> 'x database" where
  "handle_transaction_amount_post M S request actor db =
     handle_transaction_update_post S (\<lambda>_. None) F_amount request actor
       (Some (\<lambda>amount. Money_isValid M None amount))
       (Some (\<lambda>amount. Some (Money_string M amount))) db"

text \<open>The date of a request is taken to be a string, as the date column is.\<close>

definition handle_transaction_date_post ::
  "('m, 'x) modules \<Rightarrow> string UpdateRequest \<Rightarrow> User \<Rightarrow> 'x database \<Rightarrow> unit reply \<times> 'x database" where
  "handle_transaction_date_post S request actor db =
     handle_transaction_update_post S Some F_date request actor None None db"

definition handle_transaction_category_post ::
  "('m, 'x) modules \<Rightarrow> CategoryId option UpdateRequest \<Rightarrow> User \<Rightarrow> 'x database
     \<Rightarrow> unit reply \<times> 'x database" where
  "handle_transaction_category_post S request actor db =
     handle_transaction_update_post S id F_category request actor None (Some or_null) db"

text \<open>The three other update statements of \<^verbatim>\<open>handle_transaction_split_post\<close>.\<close>

definition update_split_share :: "string \<Rightarrow> TransactionId \<Rightarrow> 'x database \<Rightarrow> 'x database" where
  "update_split_share share tid db =
     db\<lparr>transaction_splits :=
          map (\<lambda>r. if ts_tid r = tid then r\<lparr>ts_share := share\<rparr> else r) (transaction_splits db)\<rparr>"

definition update_shared_payer :: "UserId \<Rightarrow> SplitId \<Rightarrow> 'x database \<Rightarrow> 'x database" where
  "update_shared_payer payer sid db =
     db\<lparr>shared_transactions :=
          map (\<lambda>r. if s_id r = sid then r\<lparr>s_payer := Some payer\<rparr> else r) (shared_transactions db)\<rparr>"

text \<open>The statements that \<^verbatim>\<open>handle_transaction_split_post\<close> batches, in the order of the array.\<close>

definition split_work ::
  "'m Money_ops \<Rightarrow> ('m, 'x) modules \<Rightarrow> UserId \<Rightarrow> UserId \<Rightarrow> 'm \<Rightarrow> 'm \<Rightarrow> 'm \<Rightarrow> 'm \<Rightarrow> 'm
     \<Rightarrow> TransactionId \<Rightarrow> TransactionId \<Rightarrow> SplitId \<Rightarrow> UserId \<Rightarrow> 'x database \<Rightarrow> 'x database" where
  "split_work M S actor_uid otherUid balanceDelta myAmount otherAmount myShare theirShare
       tid otherTid sid payer t =
     (let t1 = payments_addToBalance S actor_uid otherUid balanceDelta t;
          t2 = update_transactions (\<lambda>r. r\<lparr>t_amount := Money_string M myAmount\<rparr>) tid t1;
          t3 = update_transactions (\<lambda>r. r\<lparr>t_amount := Money_string M otherAmount\<rparr>) otherTid t2;
          t4 = update_split_share (Money_string M myShare) tid t3;
          t5 = update_split_share (Money_string M theirShare) otherTid t4
      in update_shared_payer payer sid t5)"

definition handle_transaction_split_post ::
  "'m Money_ops \<Rightarrow> ('m, 'x) modules \<Rightarrow> 'm TransactionSplitRequest \<Rightarrow> User \<Rightarrow> 'x database
     \<Rightarrow> unit reply \<times> 'x database" where
  "handle_transaction_split_post M S request actor db =
     (let tid = tsr_tid request; sid = tsr_sid request; total = tsr_total request;
          myShare = tsr_myShare request; theirShare = tsr_theirShare request
      in if \<not> Money_isValid M (Some False) total \<or>
            \<not> Money_isValid M (Some False) myShare \<or>
            \<not> Money_isValid M (Some False) theirShare \<or>
            \<not> truthy tid \<or> \<not> truthy sid
         then (StatusCode 400, db)
         else
           (let (myAmount, otherAmount) = distributeTotal S total myShare theirShare
            in tx (\<lambda>t.
                 case transactions_getOtherTid S tid sid t of
                   None \<Rightarrow> None
                 | Some otherTid \<Rightarrow>
                     (case transactions_getUser S otherTid t of
                        None \<Rightarrow> None
                      | Some otherUid \<Rightarrow>
                          (let payer = (if tsr_iPaid request then uid actor else otherUid)
                           in case transactions_getBalanceFromDb S tid t of
                                None \<Rightarrow> None
                              | Some prevBalance \<Rightarrow>
                                  (let newBalance = transactions_getBalance S (uid actor) otherUid
                                                      myAmount otherAmount (Some payer);
                                       balanceDelta = Money_minus M newBalance prevBalance
                                   in Some (StatusCode 204,
                                        split_work M S (uid actor) otherUid balanceDelta
                                          myAmount otherAmount myShare theirShare
                                          tid otherTid sid payer t))))) db))"

section \<open>The specification's wording\<close>

text \<open>
  The specification's wording of the balance: the sum of income over the frames of the group
  with index up to the given one, minus the sum of the amounts of the alive transactions of
  the group with frame up to the given one. The rows are selected one by one.
\<close>

fun frames_through :: "GroupId \<Rightarrow> FrameIndex \<Rightarrow> frames_row list \<Rightarrow> string list" where
  "frames_through gid index [] = []"
| "frames_through gid index (r # rs) =
     (if f_gid r = gid \<and> f_index r \<le> index then f_income r # frames_through gid index rs
      else frames_through gid index rs)"

fun alive_through :: "GroupId \<Rightarrow> FrameIndex \<Rightarrow> transactions_row list \<Rightarrow> string list" where
  "alive_through gid index [] = []"
| "alive_through gid index (r # rs) =
     (if t_alive r \<and> t_gid r = gid \<and> t_frame r \<le> index then t_amount r # alive_through gid index rs
      else alive_through gid index rs)"

definition cumulative_balance :: "'m Money_ops \<Rightarrow> GroupId \<Rightarrow> FrameIndex \<Rightarrow> 'x database \<Rightarrow> 'm" where
  "cumulative_balance M gid index db =
     Money_minus M
       (Money_sum M (map (Money_new M) (frames_through gid index (frames db))))
       (Money_sum M (map (Money_new M) (alive_through gid index (transactions db))))"

text \<open>
  The specification's wording of when a creation request is refused: the amount is not a
  valid non-negative monetary value, or a split is requested and one of otherAmount, myShare,
  theirShare is invalid or \<open>distributeTotal\<close> of the total and the shares does not give
  back the submitted amount and otherAmount, compared as strings.
\<close>

definition reproduces :: "'m Money_ops \<Rightarrow> ('m, 'x) modules \<Rightarrow> 'm \<Rightarrow> 'm SplitRequest \<Rightarrow> bool" where
  "reproduces M S amount split =
     (Money_string M (fst (distributeTotal S (Money_plus M amount (sr_otherAmount split))
                             (sr_myShare split) (sr_theirShare split))) = Money_string M amount \<and>
      Money_string M (snd (distributeTotal S (Money_plus M amount (sr_otherAmount split))
                             (sr_myShare split) (sr_theirShare split))) =
        Money_string M (sr_otherAmount split))"

definition refused :: "'m Money_ops \<Rightarrow> ('m, 'x) modules \<Rightarrow> 'm AddTransactionRequest \<Rightarrow> bool" where
  "refused M S request =
     (\<not> Money_isValid M (Some False) (atr_amount request) \<or>
      (case atr_split request of
         None \<Rightarrow> False
       | Some split \<Rightarrow>
           \<not> Money_isValid M (Some False) (sr_otherAmount split) \<or>
           \<not> Money_isValid M (Some False) (sr_myShare split) \<or>
           \<not> Money_isValid M (Some False) (sr_theirShare split) \<or>
           \<not> reproduces M S (atr_amount request) split))"

section \<open>An instance to run the model on\<close>

text \<open>
  Modelled from the spec: the class \<^verbatim>\<open>Money\<close> (shared/Money) is not part of the sources
  at hand. The spec describes it as an arbitrary-precision decimal value with string
  (de)serialization, which can be malformed. In this instance an amount is a whole number of
  the smallest unit, written in decimal, and \<open>None\<close> is a malformed value. It serves to run
  the handlers on concrete requests; no general result depends on it.
\<close>

function show_nat :: "nat \<Rightarrow> string" where
  "show_nat n = (if n < 10 then [''0123456789'' ! n]
                 else show_nat (n div 10) @ [''0123456789'' ! (n mod 10)])"
  by pat_completeness auto
termination
  by (relation "measure id") auto

definition show_int :: "int \<Rightarrow> string" where
  "show_int i = (if i < 0 then CHR ''-'' # show_nat (nat (- i)) else show_nat (nat i))"

definition digit_val :: "char \<Rightarrow> nat option" where
  "digit_val c = (let n = (of_char c :: nat) in if 48 \<le> n \<and> n \<le> 57 then Some (n - 48) else None)"

fun parse_digits :: "nat \<Rightarrow> string \<Rightarrow> nat option" where
  "parse_digits acc [] = Some acc"
| "parse_digits acc (c # cs) =
     (case digit_val c of None \<Rightarrow> None | Some d \<Rightarrow> parse_digits (10 * acc + d) cs)"

definition parse_decimal :: "string \<Rightarrow> int option" where
  "parse_decimal s =
     (case s of
        [] \<Rightarrow> None
      | c # cs \<Rightarrow>
          if c = CHR ''-'' then (if cs = [] then None else map_option (\<lambda>n. - int n) (parse_digits 0 cs))
          else map_option int (parse_digits 0 s))"

definition lift2 :: "(int \<Rightarrow> int \<Rightarrow> int) \<Rightarrow> int option \<Rightarrow> int option \<Rightarrow> int option" where
  "lift2 f a b = (case a of None \<Rightarrow> None | Some x \<Rightarrow> (case b of None \<Rightarrow> None | Some y \<Rightarrow> Some (f x y)))"

definition whole_Money :: "int option Money_ops" where
  "whole_Money =
     \<lparr>Money_Zero = Some 0,
      Money_new = parse_decimal,
      Money_string = (\<lambda>m. case m of None \<Rightarrow> ''NaN'' | Some v \<Rightarrow> show_int v),
      Money_plus = lift2 (+),
      Money_minus = lift2 (-),
      Money_sum = (\<lambda>ms. foldl (lift2 (+)) (Some 0) ms),
      Money_isValid = (\<lambda>allowNegative m.
         case m of
           None \<Rightarrow> False
         | Some v \<Rightarrow> (case allowNegative of Some False \<Rightarrow> 0 \<le> v | _ \<Rightarrow> True))\<rparr>"

text \<open>
  Modelled from the spec: the modules shared/transactions, server/user, server/transactions,
  server/categories and server/payments are not part of the sources at hand. The spec says
  of them: the two amounts of a split reconcile with the share ratio and sum to the total;
  a user has a default group and friends; a transaction belongs to a group and is
  soft-deleted through its alive flag; a split links two transactions; the balance between
  two friends is a running total adjusted by each shared transaction; a category's spending
  is that of the alive transactions of the frame in that category. The instance below does
  that over three more tables. It serves to run the handlers on concrete requests; no
  general result depends on it.
\<close>

record more_tables =
  membership :: "(UserId \<times> GroupId) list"
  friendship :: "(UserId \<times> UserId) list"
  balances :: "((UserId \<times> UserId) \<times> int option) list"

definition ratio_distributeTotal :: "int option \<Rightarrow> int option \<Rightarrow> int option \<Rightarrow> int option \<times> int option" where
  "ratio_distributeTotal whole myShare theirShare =
     (let shares = lift2 (+) myShare theirShare;
          mine = (if shares = Some 0 then None else lift2 (div) (lift2 (*) whole myShare) shares)
      in (mine, lift2 (-) whole mine))"

definition spending_of :: "CategoryId \<Rightarrow> FrameIndex \<Rightarrow> 'x database \<Rightarrow> int option" where
  "spending_of cid frame db =
     Money_sum whole_Money
       (map (\<lambda>r. parse_decimal (t_amount r))
          (filter (\<lambda>r. t_category r = Some cid \<and> t_frame r = frame \<and> t_alive r) (transactions db)))"

definition group_of :: "UserId \<Rightarrow> more_tables database \<Rightarrow> GroupId option" where
  "group_of u db = map_of (membership (other_tables db)) u"

definition owner_of :: "TransactionId \<Rightarrow> more_tables database \<Rightarrow> UserId option" where
  "owner_of tid db =
     (case find (\<lambda>r. t_id r = tid) (transactions db) of
        None \<Rightarrow> None
      | Some r \<Rightarrow> map_option fst (find (\<lambda>m. snd m = t_gid r) (membership (other_tables db))))"

definition other_tid :: "TransactionId \<Rightarrow> SplitId \<Rightarrow> more_tables database \<Rightarrow> TransactionId option" where
  "other_tid tid sid db =
     map_option ts_tid (find (\<lambda>r. ts_sid r = sid \<and> ts_tid r \<noteq> tid) (transaction_splits db))"

definition owed :: "UserId \<Rightarrow> UserId \<Rightarrow> int option \<Rightarrow> int option \<Rightarrow> UserId option \<Rightarrow> int option" where
  "owed user otherUser amount otherAmount payer =
     (if payer = Some user then otherAmount else lift2 (-) (Some 0) amount)"

definition split_of :: "TransactionId \<Rightarrow> more_tables database \<Rightarrow> int option Split option" where
  "split_of tid db =
     (case find (\<lambda>r. ts_tid r = tid) (transaction_splits db) of
        None \<Rightarrow> None
      | Some mine \<Rightarrow>
          (case find (\<lambda>r. ts_sid r = ts_sid mine \<and> ts_tid r \<noteq> tid) (transaction_splits db) of
             None \<Rightarrow> None
           | Some theirs \<Rightarrow>
               (case find (\<lambda>r. t_id r = ts_tid theirs) (transactions db) of
                  None \<Rightarrow> None
                | Some other_row \<Rightarrow>
                    (case find (\<lambda>r. s_id r = ts_sid mine) (shared_transactions db) of
                       None \<Rightarrow> None
                     | Some shared \<Rightarrow>
                         Some \<lparr>split_id = ts_sid mine,
                               split_with = \<lparr>friend_uid = (case owner_of (ts_tid theirs) db of
                                                               Some u \<Rightarrow> u | None \<Rightarrow> []),
                                             friend_gid = t_gid other_row\<rparr>,
                               split_settled = s_settled shared,
                               split_myShare = parse_decimal (ts_share mine),
                               split_theirShare = parse_decimal (ts_share theirs),
                               split_otherAmount = parse_decimal (t_amount other_row),
                               split_payer = s_payer shared\<rparr>))))"

definition transaction_of :: "TransactionId \<Rightarrow> more_tables database \<Rightarrow> int option Transaction option" where
  "transaction_of tid db =
     map_option (\<lambda>r. \<lparr>trans_id = t_id r, trans_gid = t_gid r, trans_frame = t_frame r,
                       trans_category = t_category r, trans_amount = parse_decimal (t_amount r),
                       trans_description = t_description r, trans_alive = t_alive r,
                       trans_date = t_date r, trans_split = split_of tid db\<rparr>)
       (find (\<lambda>r. t_id r = tid) (transactions db))"

definition balance_from_db :: "TransactionId \<Rightarrow> more_tables database \<Rightarrow> int option option" where
  "balance_from_db tid db =
     (case transaction_of tid db of
        None \<Rightarrow> None
      | Some tr \<Rightarrow>
          (case trans_split tr of
             None \<Rightarrow> None
           | Some sp \<Rightarrow>
               map_option (\<lambda>u. owed u (friend_uid (split_with sp)) (trans_amount tr)
                                  (split_otherAmount sp) (split_payer sp))
                 (owner_of tid db)))"

definition some_modules :: "(int option, more_tables) modules" where
  "some_modules =
     \<lparr>distributeTotal = ratio_distributeTotal,
      randomId = (\<lambda>n. ''id'' @ show_nat n),
      categories_getSpending = spending_of,
      DEFAULT_CATEGORIES = [''Rent'', ''Food''],
      user_isFriend = (\<lambda>a b db. (a, b) \<in> set (friendship (other_tables db))),
      user_getDefaultGroup = (\<lambda>u db. case group_of (uid u) db of Some g \<Rightarrow> g | None \<Rightarrow> []),
      user_getFriend = (\<lambda>u db. map_option (\<lambda>g. \<lparr>friend_uid = u, friend_gid = g\<rparr>) (group_of u db)),
      transactions_canUserEdit = (\<lambda>tid u db.
         list_ex (\<lambda>r. t_id r = tid \<and> group_of u db = Some (t_gid r)) (transactions db)),
      transactions_deleteTransaction = (\<lambda>tid db. update_transactions (\<lambda>r. r\<lparr>t_alive := False\<rparr>) tid db),
      transactions_getTransaction = transaction_of,
      transactions_getOtherTid = other_tid,
      transactions_getUser = owner_of,
      transactions_getBalanceFromDb = balance_from_db,
      transactions_getBalance = owed,
      payments_addToBalance = (\<lambda>a b amount db.
         db\<lparr>other_tables := (other_tables db)\<lparr>balances := balances (other_tables db) @ [((a, b), amount)]\<rparr>\<rparr>)\<rparr>"

text \<open>A small state: three users, a shared lunch of alice and bob, one frame of alice's group.\<close>

definition ledger :: "more_tables database" where
  "ledger =
     \<lparr>transactions =
        [\<lparr>t_id = ''t1'', t_gid = ''ga'', t_frame = 0, t_amount = ''30'', t_description = ''lunch'',
          t_category = Some ''c1'', t_date = ''2019-01-05'', t_alive = True\<rparr>,
         \<lparr>t_id = ''t2'', t_gid = ''gb'', t_frame = 0, t_amount = ''20'', t_description = ''lunch'',
          t_category = None, t_date = ''2019-01-05'', t_alive = True\<rparr>,
         \<lparr>t_id = ''t3'', t_gid = ''ga'', t_frame = 0, t_amount = ''10'', t_description = ''tea'',
          t_category = Some ''c1'', t_date = ''2019-01-06'', t_alive = False\<rparr>],
      shared_transactions = [\<lparr>s_id = ''s1'', s_payer = Some ''alice'', s_settled = True\<rparr>],
      transaction_splits =
        [\<lparr>ts_tid = ''t1'', ts_sid = ''s1'', ts_share = ''60''\<rparr>,
         \<lparr>ts_tid = ''t2'', ts_sid = ''s1'', ts_share = ''40''\<rparr>],
      frames = [\<lparr>f_gid = ''ga'', f_index = 0, f_income = ''100'', f_ghost = False\<rparr>],
      categories =
        [\<lparr>c_id = ''c1'', c_gid = ''ga'', c_frame = 0, c_name = ''Food'', c_ordering = 1,
          c_budget = ''100'', c_ghost = False, c_alive = True\<rparr>,
         \<lparr>c_id = ''c0'', c_gid = ''ga'', c_frame = 0, c_name = ''Rent'', c_ordering = 0,
          c_budget = ''500'', c_ghost = False, c_alive = True\<rparr>,
         \<lparr>c_id = ''c2'', c_gid = ''ga'', c_frame = 0, c_name = ''Old'', c_ordering = 2,
          c_budget = ''5'', c_ghost = False, c_alive = False\<rparr>],
      other_tables =
        \<lparr>membership = [(''alice'', ''ga''), (''bob'', ''gb''), (''carol'', ''gc'')],
         friendship = [(''alice'', ''bob''), (''bob'', ''alice'')],
         balances = []\<rparr>\<rparr>"

definition trip_request :: "int \<Rightarrow> int option AddTransactionRequest" where
  "trip_request amount =
     \<lparr>atr_frame = 0, atr_amount = Some amount, atr_description = ''trip'',
      atr_category = Some ''c1'', atr_date = ''2019-01-07'',
      atr_split = Some \<lparr>sr_with = ''bob'', sr_iPaid = True, sr_otherAmount = Some 40,
                         sr_myShare = Some 60, sr_theirShare = Some 40\<rparr>\<rparr>"

definition lunch_split :: "int option Split" where
  "lunch_split =
     \<lparr>split_id = ''s1'', split_with = \<lparr>friend_uid = ''bob'', friend_gid = ''gb''\<rparr>,
      split_settled = True, split_myShare = Some 60, split_theirShare = Some 40,
      split_otherAmount = Some 20, split_payer = Some ''alice''\<rparr>"

definition lunch :: "int option Transaction" where
  "lunch =
     \<lparr>trans_id = ''t1'', trans_gid = ''ga'', trans_frame = 0, trans_category = Some ''c1'',
      trans_amount = Some 30, trans_description = ''lunch'', trans_alive = True,
      trans_date = ''2019-01-05'', trans_split = Some lunch_split\<rparr>"

definition resplit_request :: "int option TransactionSplitRequest" where
  "resplit_request =
     \<lparr>tsr_tid = ''t1'', tsr_sid = ''s1'', tsr_total = Some 100, tsr_myShare = Some 1,
      tsr_theirShare = Some 3, tsr_iPaid = True\<rparr>"

definition trip :: "int option Transaction" where
  "trip =
     \<lparr>trans_id = ''id0'', trans_gid = ''ga'', trans_frame = 0, trans_category = Some ''c1'',
      trans_amount = Some 60, trans_description = ''trip'', trans_alive = True,
      trans_date = ''2019-01-07'',
      trans_split = Some \<lparr>split_id = ''id2'',
                           split_with = \<lparr>friend_uid = ''bob'', friend_gid = ''gb''\<rparr>,
                           split_settled = False, split_myShare = Some 60,
                           split_theirShare = Some 40, split_otherAmount = Some 40,
                           split_payer = Some ''alice''\<rparr>\<rparr>"

section \<open>Results\<close>

lemma frames_through_filter:
  "frames_through gid index rs = map f_income (filter (\<lambda>r. f_gid r = gid \<and> f_index r \<le> index) rs)"
  by (induction rs) simp_all

lemma alive_through_filter:
  "alive_through gid index rs =
     map t_amount (filter (\<lambda>r. t_gid r = gid \<and> t_frame r \<le> index \<and> t_alive r) rs)"
  by (induction rs) auto

text \<open>
  C3. For every group, frame index and database state, \<open>getBalance\<close> is the sum of the
  income of all frames of the group with index up to the given one, minus the sum of the
  amounts of all alive transactions of the group with frame up to the given one.
\<close>

theorem getBalance_cumulative:
  "getBalance M gid index db = cumulative_balance M gid index db"
  by (simp add: getBalance_def cumulative_balance_def frames_through_filter
        alive_through_filter comp_def)


lemma ledger_balance: "getBalance whole_Money ''ga'' 0 ledger = Some 70"
  by code_simp

text \<open>
  C10. \<open>getCategories\<close> returns only categories whose alive flag is true, in ascending
  order of their ordering field, and the balance of each is its budget minus the spending of
  that category in that frame.
\<close>

theorem getCategories_alive_sorted_balance:
  "(\<forall>c \<in> set (getCategories M C gid frame db).
      cat_alive c \<and>
      cat_balance c = Some (Money_minus M (cat_budget c) (categories_getSpending C (cat_id c) frame db)))
   \<and> sorted (map cat_ordering (getCategories M C gid frame db))"
proof
  show "\<forall>c \<in> set (getCategories M C gid frame db).
      cat_alive c \<and>
      cat_balance c = Some (Money_minus M (cat_budget c) (categories_getSpending C (cat_id c) frame db))"
    by (auto simp: getCategories_def categories_fromSerialized_def Let_def)
next
  have "map cat_ordering (getCategories M C gid frame db) =
        map c_ordering (sort_key c_ordering
          (filter (\<lambda>r. c_gid r = gid \<and> c_frame r = frame \<and> c_alive r) (categories db)))"
    by (simp add: getCategories_def categories_fromSerialized_def Let_def comp_def)
  then show "sorted (map cat_ordering (getCategories M C gid frame db))"
    by simp
qed

lemma ledger_categories:
  "getCategories whole_Money some_modules ''ga'' 0 ledger =
     [\<lparr>cat_id = ''c0'', cat_gid = ''ga'', cat_frame = 0, cat_name = ''Rent'', cat_ordering = 0,
       cat_budget = Some 500, cat_balance = Some (Some 500), cat_ghost = False, cat_alive = True\<rparr>,
      \<lparr>cat_id = ''c1'', cat_gid = ''ga'', cat_frame = 0, cat_name = ''Food'', cat_ordering = 1,
       cat_budget = Some 100, cat_balance = Some (Some 70), cat_ghost = False, cat_alive = True\<rparr>]"
  by code_simp

theorem getCategories_alive_sorted_balance_witness:
  "map cat_id (getCategories whole_Money some_modules ''ga'' 0 ledger) = [''c0'', ''c1''] \<and>
   map cat_alive (getCategories whole_Money some_modules ''ga'' 0 ledger) = [True, True] \<and>
   map cat_balance (getCategories whole_Money some_modules ''ga'' 0 ledger) =
     [Some (Money_minus whole_Money (Some 500) (categories_getSpending some_modules ''c0'' 0 ledger)),
      Some (Money_minus whole_Money (Some 100) (categories_getSpending some_modules ''c1'' 0 ledger))] \<and>
   sorted (map cat_ordering (getCategories whole_Money some_modules ''ga'' 0 ledger))"
  using getCategories_alive_sorted_balance[of whole_Money some_modules "''ga''" 0 ledger]
  by (simp add: ledger_categories)

text \<open>
  C7. When \<open>canUserEdit\<close> is false for the requested id and the actor,
  \<open>handle_transaction_delete\<close> answers 400 and the database state is unchanged; when it
  holds, the handler calls \<open>deleteTransaction\<close> on the id and answers 204.
\<close>

theorem handle_transaction_delete_checks_canUserEdit:
  "(\<not> transactions_canUserEdit S (dtr_id request) (uid actor) db \<longrightarrow>
      handle_transaction_delete S request actor db = (StatusCode 400, db)) \<and>
   (transactions_canUserEdit S (dtr_id request) (uid actor) db \<longrightarrow>
      handle_transaction_delete S request actor db =
        (StatusCode 204, transactions_deleteTransaction S (dtr_id request) db))"
  by (simp add: handle_transaction_delete_def tx_def)

lemma carol_cannot_edit: "\<not> transactions_canUserEdit some_modules ''t1'' ''carol'' ledger"
  by code_simp

lemma alice_can_edit: "transactions_canUserEdit some_modules ''t1'' ''alice'' ledger"
  by code_simp

lemma ledger_deleted:
  "map t_alive (transactions (transactions_deleteTransaction some_modules ''t1'' ledger)) =
     [False, True, False]"
  by code_simp

theorem handle_transaction_delete_checks_canUserEdit_witness:
  "\<not> transactions_canUserEdit some_modules ''t1'' ''carol'' ledger \<and>
   handle_transaction_delete some_modules \<lparr>dtr_id = ''t1''\<rparr> \<lparr>uid = ''carol''\<rparr> ledger =
     (StatusCode 400, ledger) \<and>
   transactions_canUserEdit some_modules ''t1'' ''alice'' ledger \<and>
   fst (handle_transaction_delete some_modules \<lparr>dtr_id = ''t1''\<rparr> \<lparr>uid = ''alice''\<rparr> ledger) =
     StatusCode 204 \<and>
   map t_alive (transactions (snd (handle_transaction_delete some_modules \<lparr>dtr_id = ''t1''\<rparr>
                                      \<lparr>uid = ''alice''\<rparr> ledger))) = [False, True, False]"
  using handle_transaction_delete_checks_canUserEdit[of some_modules "\<lparr>dtr_id = ''t1''\<rparr>" "\<lparr>uid = ''carol''\<rparr>" ledger]
    handle_transaction_delete_checks_canUserEdit[of some_modules "\<lparr>dtr_id = ''t1''\<rparr>" "\<lparr>uid = ''alice''\<rparr>" ledger]
    carol_cannot_edit alice_can_edit ledger_deleted
  by simp

text \<open>
  C5, as amended. For a transaction that has a split and belongs to the caller's default
  group, \<open>handle_transaction_amount_post\<close> answers 400 and leaves the state unchanged.
  For a transaction of another group it answers 401 when the submitted amount is valid; an
  invalid amount is answered with 400 before the transaction is looked up.
\<close>

theorem amount_post_on_split_or_foreign_transaction:
  assumes "transactions_getTransaction S (ur_id request) db = Some existing"
  shows "(trans_gid existing = user_getDefaultGroup S actor db \<and> trans_split existing \<noteq> None \<longrightarrow>
            handle_transaction_amount_post M S request actor db = (StatusCode 400, db)) \<and>
         (trans_gid existing \<noteq> user_getDefaultGroup S actor db \<and>
          Money_isValid M None (ur_value request) \<longrightarrow>
            handle_transaction_amount_post M S request actor db = (StatusCode 401, db)) \<and>
         (\<not> Money_isValid M None (ur_value request) \<longrightarrow>
            handle_transaction_amount_post M S request actor db = (StatusCode 400, db))"
  using assms
  by (simp add: handle_transaction_amount_post_def handle_transaction_update_post_def tx_def
        canEditShared_def Let_def)

lemma ledger_lunch: "transactions_getTransaction some_modules ''t1'' ledger = Some lunch"
  by code_simp

lemma ledger_groups:
  "user_getDefaultGroup some_modules \<lparr>uid = ''alice''\<rparr> ledger = ''ga'' \<and>
   user_getDefaultGroup some_modules \<lparr>uid = ''carol''\<rparr> ledger = ''gc''"
  by code_simp

lemma five_valid: "Money_isValid whole_Money None (Some 5)"
  by code_simp

theorem amount_post_on_split_or_foreign_transaction_witness:
  "transactions_getTransaction some_modules ''t1'' ledger = Some lunch \<and>
   handle_transaction_amount_post whole_Money some_modules \<lparr>ur_id = ''t1'', ur_value = Some 5\<rparr>
     \<lparr>uid = ''alice''\<rparr> ledger = (StatusCode 400, ledger) \<and>
   handle_transaction_amount_post whole_Money some_modules \<lparr>ur_id = ''t1'', ur_value = Some 5\<rparr>
     \<lparr>uid = ''carol''\<rparr> ledger = (StatusCode 401, ledger)"
proof -
  have g: "transactions_getTransaction some_modules
             (ur_id \<lparr>ur_id = ''t1'', ur_value = Some (5::int)\<rparr>) ledger = Some lunch"
    by (simp add: ledger_lunch)
  show ?thesis
    using amount_post_on_split_or_foreign_transaction[OF g, of "\<lparr>uid = ''alice''\<rparr>" whole_Money]
      amount_post_on_split_or_foreign_transaction[OF g, of "\<lparr>uid = ''carol''\<rparr>" whole_Money]
      ledger_groups five_valid ledger_lunch
    by (simp add: lunch_def)
qed

text \<open>
  C5 as stated fails: the transaction \<open>t1\<close> belongs to group \<open>ga\<close>, carol's default group
  is \<open>gc\<close>, and her amount update with a malformed amount is answered with 400, not 401.
\<close>

theorem amount_post_foreign_invalid_counterexample:
  "map_option trans_gid (transactions_getTransaction some_modules ''t1'' ledger) = Some ''ga'' \<and>
   user_getDefaultGroup some_modules \<lparr>uid = ''carol''\<rparr> ledger = ''gc'' \<and>
   handle_transaction_amount_post whole_Money some_modules \<lparr>ur_id = ''t1'', ur_value = None\<rparr>
     \<lparr>uid = ''carol''\<rparr> ledger = (StatusCode 400, ledger)"
  by code_simp

text \<open>
  C6. For a transaction with a split that belongs to the caller's default group, an update of
  the date or of the description whose value is valid answers 204 and leaves the state in
  which the date column, or the description column, of the requested transaction and of the
  linked transaction of the split holds the transformed value, and nothing else has changed.
\<close>

theorem shared_field_update_propagates:
  assumes "field = F_date \<or> field = F_description"
    and "transactions_getTransaction S (ur_id request) db = Some existing"
    and "trans_gid existing = user_getDefaultGroup S actor db"
    and "trans_split existing = Some split"
    and "case isValid of None \<Rightarrow> True | Some p \<Rightarrow> p (ur_value request)"
    and "(case transform of None \<Rightarrow> typeof_string | Some f \<Rightarrow> f) (ur_value request) = Some v"
    and "transactions_getOtherTid S (ur_id request) (split_id split)
           (db\<lparr>transactions :=
                 map (\<lambda>r. if t_id r = ur_id request
                           then (if field = F_date then r\<lparr>t_date := v\<rparr> else r\<lparr>t_description := v\<rparr>)
                           else r) (transactions db)\<rparr>) = Some otherTid"
  shows "handle_transaction_update_post S typeof_string field request actor isValid transform db =
           (StatusCode 204,
            db\<lparr>transactions :=
                 map (\<lambda>r. if t_id r = ur_id request \<or> t_id r = otherTid
                           then (if field = F_date then r\<lparr>t_date := v\<rparr> else r\<lparr>t_description := v\<rparr>)
                           else r) (transactions db)\<rparr>)"
proof -
  let ?w = "\<lambda>r. if field = F_date then r\<lparr>t_date := v\<rparr> else r\<lparr>t_description := v\<rparr>"
  have w: "write_column field v = ?w"
    using assms(1) by (auto simp: fun_eq_iff)
  have first: "update_transactions ?w (ur_id request) db =
                 db\<lparr>transactions := map (\<lambda>r. if t_id r = ur_id request then ?w r else r) (transactions db)\<rparr>"
    by (simp add: update_transactions_def)
  have both: "update_transactions ?w otherTid (update_transactions ?w (ur_id request) db) =
                db\<lparr>transactions :=
                     map (\<lambda>r. if t_id r = ur_id request \<or> t_id r = otherTid then ?w r else r)
                       (transactions db)\<rparr>"
    by (auto simp: update_transactions_def)
  have "handle_transaction_update_post S typeof_string field request actor isValid transform db =
          (StatusCode 204,
           update_transactions ?w otherTid (update_transactions ?w (ur_id request) db))"
    using assms(2-6) assms(7)[folded first] assms(1)
    by (auto simp: handle_transaction_update_post_def tx_def canEditShared_def isSharedField_def
          update_transactions_set_def set_column_def Let_def w split: option.splits)
  then show ?thesis
    by (simp only: both)
qed

lemma ledger_other_tid:
  "transactions_getOtherTid some_modules ''t1'' ''s1''
     (ledger\<lparr>transactions :=
        map (\<lambda>r. if t_id r = ''t1'' then r\<lparr>t_description := ''dinner''\<rparr> else r)
          (transactions ledger)\<rparr>) = Some ''t2'' \<and>
   transactions_getOtherTid some_modules ''t1'' ''s1''
     (ledger\<lparr>transactions :=
        map (\<lambda>r. if t_id r = ''t1'' then r\<lparr>t_date := ''2019-02-01''\<rparr> else r)
          (transactions ledger)\<rparr>) = Some ''t2''"
  by code_simp

lemma ledger_rewritten:
  "map (\<lambda>r. if t_id r = ''t1'' \<or> t_id r = ''t2'' then r\<lparr>t_description := ''dinner''\<rparr> else r)
     (transactions ledger) =
     [\<lparr>t_id = ''t1'', t_gid = ''ga'', t_frame = 0, t_amount = ''30'', t_description = ''dinner'',
       t_category = Some ''c1'', t_date = ''2019-01-05'', t_alive = True\<rparr>,
      \<lparr>t_id = ''t2'', t_gid = ''gb'', t_frame = 0, t_amount = ''20'', t_description = ''dinner'',
       t_category = None, t_date = ''2019-01-05'', t_alive = True\<rparr>,
      \<lparr>t_id = ''t3'', t_gid = ''ga'', t_frame = 0, t_amount = ''10'', t_description = ''tea'',
       t_category = Some ''c1'', t_date = ''2019-01-06'', t_alive = False\<rparr>] \<and>
   map (\<lambda>r. if t_id r = ''t1'' \<or> t_id r = ''t2'' then r\<lparr>t_date := ''2019-02-01''\<rparr> else r)
     (transactions ledger) =
     [\<lparr>t_id = ''t1'', t_gid = ''ga'', t_frame = 0, t_amount = ''30'', t_description = ''lunch'',
       t_category = Some ''c1'', t_date = ''2019-02-01'', t_alive = True\<rparr>,
      \<lparr>t_id = ''t2'', t_gid = ''gb'', t_frame = 0, t_amount = ''20'', t_description = ''lunch'',
       t_category = None, t_date = ''2019-02-01'', t_alive = True\<rparr>,
      \<lparr>t_id = ''t3'', t_gid = ''ga'', t_frame = 0, t_amount = ''10'', t_description = ''tea'',
       t_category = Some ''c1'', t_date = ''2019-01-06'', t_alive = False\<rparr>]"
  by code_simp

theorem shared_field_update_propagates_witness:
  "handle_transaction_description_post some_modules \<lparr>ur_id = ''t1'', ur_value = ''dinner''\<rparr>
     \<lparr>uid = ''alice''\<rparr> ledger =
     (StatusCode 204,
      ledger\<lparr>transactions :=
        [\<lparr>t_id = ''t1'', t_gid = ''ga'', t_frame = 0, t_amount = ''30'', t_description = ''dinner'',
          t_category = Some ''c1'', t_date = ''2019-01-05'', t_alive = True\<rparr>,
         \<lparr>t_id = ''t2'', t_gid = ''gb'', t_frame = 0, t_amount = ''20'', t_description = ''dinner'',
          t_category = None, t_date = ''2019-01-05'', t_alive = True\<rparr>,
         \<lparr>t_id = ''t3'', t_gid = ''ga'', t_frame = 0, t_amount = ''10'', t_description = ''tea'',
          t_category = Some ''c1'', t_date = ''2019-01-06'', t_alive = False\<rparr>]\<rparr>) \<and>
   handle_transaction_date_post some_modules \<lparr>ur_id = ''t1'', ur_value = ''2019-02-01''\<rparr>
     \<lparr>uid = ''alice''\<rparr> ledger =
     (StatusCode 204,
      ledger\<lparr>transactions :=
        [\<lparr>t_id = ''t1'', t_gid = ''ga'', t_frame = 0, t_amount = ''30'', t_description = ''lunch'',
          t_category = Some ''c1'', t_date = ''2019-02-01'', t_alive = True\<rparr>,
         \<lparr>t_id = ''t2'', t_gid = ''gb'', t_frame = 0, t_amount = ''20'', t_description = ''lunch'',
          t_category = None, t_date = ''2019-02-01'', t_alive = True\<rparr>,
         \<lparr>t_id = ''t3'', t_gid = ''ga'', t_frame = 0, t_amount = ''10'', t_description = ''tea'',
          t_category = Some ''c1'', t_date = ''2019-01-06'', t_alive = False\<rparr>]\<rparr>)"
proof -
  have description:
    "handle_transaction_update_post some_modules Some F_description
       \<lparr>ur_id = ''t1'', ur_value = ''dinner''\<rparr> \<lparr>uid = ''alice''\<rparr> (Some truthy) None ledger =
     (StatusCode 204,
      ledger\<lparr>transactions :=
        map (\<lambda>r. if t_id r = ''t1'' \<or> t_id r = ''t2'' then r\<lparr>t_description := ''dinner''\<rparr> else r)
          (transactions ledger)\<rparr>)"
    using shared_field_update_propagates[where field = F_description and S = some_modules
        and request = "\<lparr>ur_id = ''t1'', ur_value = ''dinner''\<rparr>" and db = ledger
        and existing = lunch and actor = "\<lparr>uid = ''alice''\<rparr>" and split = lunch_split
        and isValid = "Some truthy" and transform = None and typeof_string = Some
        and v = "''dinner''" and otherTid = "''t2''"]
      ledger_groups ledger_other_tid ledger_lunch
    by (simp add: lunch_def lunch_split_def truthy_def cong: if_cong)
  have date:
    "handle_transaction_update_post some_modules Some F_date
       \<lparr>ur_id = ''t1'', ur_value = ''2019-02-01''\<rparr> \<lparr>uid = ''alice''\<rparr> None None ledger =
     (StatusCode 204,
      ledger\<lparr>transactions :=
        map (\<lambda>r. if t_id r = ''t1'' \<or> t_id r = ''t2'' then r\<lparr>t_date := ''2019-02-01''\<rparr> else r)
          (transactions ledger)\<rparr>)"
    using shared_field_update_propagates[where field = F_date and S = some_modules
        and request = "\<lparr>ur_id = ''t1'', ur_value = ''2019-02-01''\<rparr>" and db = ledger
        and existing = lunch and actor = "\<lparr>uid = ''alice''\<rparr>" and split = lunch_split
        and isValid = None and transform = None and typeof_string = Some
        and v = "''2019-02-01''" and otherTid = "''t2''"]
      ledger_groups ledger_other_tid ledger_lunch
    by (simp add: lunch_def lunch_split_def cong: if_cong)
  show ?thesis
    unfolding handle_transaction_description_post_def handle_transaction_date_post_def
      description date
    using ledger_rewritten by (simp only: simp_thms)
qed

text \<open>
  C8, as amended. \<open>handle_transaction_split_post\<close> makes no authorization or ownership
  check: it never answers 401, and its result does not depend on the queries for the default
  group, for the right to edit, for the transaction or for friendship. For valid non-negative
  total and shares and non-empty ids, when the linked transaction, its owner and the previous
  balance are found, it answers 204, whichever group the transaction belongs to, and leaves
  the state in which the balance delta is added to the ledger, the two transactions have the
  distributed amounts, their two splits have the submitted shares and the shared transaction
  has the new payer.
\<close>

theorem split_post_checks_no_ownership:
  "fst (handle_transaction_split_post M S request actor db) \<noteq> StatusCode 401 \<and>
   handle_transaction_split_post M
     (S\<lparr>user_getDefaultGroup := g, transactions_canUserEdit := e,
        transactions_getTransaction := gt, user_isFriend := fr\<rparr>) request actor db =
     handle_transaction_split_post M S request actor db \<and>
   (Money_isValid M (Some False) (tsr_total request) \<and>
    Money_isValid M (Some False) (tsr_myShare request) \<and>
    Money_isValid M (Some False) (tsr_theirShare request) \<and>
    tsr_tid request \<noteq> [] \<and> tsr_sid request \<noteq> [] \<and>
    distributeTotal S (tsr_total request) (tsr_myShare request) (tsr_theirShare request) =
      (myAmount, otherAmount) \<and>
    transactions_getOtherTid S (tsr_tid request) (tsr_sid request) db = Some otherTid \<and>
    transactions_getUser S otherTid db = Some otherUid \<and>
    transactions_getBalanceFromDb S (tsr_tid request) db = Some prevBalance \<longrightarrow>
    handle_transaction_split_post M S request actor db =
      (StatusCode 204,
       (let payer = (if tsr_iPaid request then uid actor else otherUid);
            t1 = payments_addToBalance S (uid actor) otherUid
                   (Money_minus M
                      (transactions_getBalance S (uid actor) otherUid myAmount otherAmount (Some payer))
                      prevBalance) db
        in t1\<lparr>transactions :=
                 map (\<lambda>r. if t_id r = otherTid then r\<lparr>t_amount := Money_string M otherAmount\<rparr>
                           else if t_id r = tsr_tid request then r\<lparr>t_amount := Money_string M myAmount\<rparr>
                           else r) (transactions t1),
               transaction_splits :=
                 map (\<lambda>r. if ts_tid r = otherTid
                           then r\<lparr>ts_share := Money_string M (tsr_theirShare request)\<rparr>
                           else if ts_tid r = tsr_tid request
                           then r\<lparr>ts_share := Money_string M (tsr_myShare request)\<rparr>
                           else r) (transaction_splits t1),
               shared_transactions :=
                 map (\<lambda>r. if s_id r = tsr_sid request then r\<lparr>s_payer := Some payer\<rparr> else r)
                   (shared_transactions t1)\<rparr>)))"
proof (intro conjI impI)
  show "fst (handle_transaction_split_post M S request actor db) \<noteq> StatusCode 401"
    by (auto simp: handle_transaction_split_post_def tx_def Let_def split: option.splits prod.splits)
next
  show "handle_transaction_split_post M
     (S\<lparr>user_getDefaultGroup := g, transactions_canUserEdit := e,
        transactions_getTransaction := gt, user_isFriend := fr\<rparr>) request actor db =
     handle_transaction_split_post M S request actor db"
    by (simp add: handle_transaction_split_post_def split_work_def Let_def
          cong: option.case_cong if_cong)
next
  assume h: "Money_isValid M (Some False) (tsr_total request) \<and>
    Money_isValid M (Some False) (tsr_myShare request) \<and>
    Money_isValid M (Some False) (tsr_theirShare request) \<and>
    tsr_tid request \<noteq> [] \<and> tsr_sid request \<noteq> [] \<and>
    distributeTotal S (tsr_total request) (tsr_myShare request) (tsr_theirShare request) =
      (myAmount, otherAmount) \<and>
    transactions_getOtherTid S (tsr_tid request) (tsr_sid request) db = Some otherTid \<and>
    transactions_getUser S otherTid db = Some otherUid \<and>
    transactions_getBalanceFromDb S (tsr_tid request) db = Some prevBalance"
  let ?payer = "if tsr_iPaid request then uid actor else otherUid"
  let ?delta = "Money_minus M
                  (transactions_getBalance S (uid actor) otherUid myAmount otherAmount (Some ?payer))
                  prevBalance"
  from h have "handle_transaction_split_post M S request actor db =
      (StatusCode 204,
       split_work M S (uid actor) otherUid ?delta
         myAmount otherAmount (tsr_myShare request) (tsr_theirShare request)
         (tsr_tid request) otherTid (tsr_sid request) ?payer db)"
    by (simp add: handle_transaction_split_post_def tx_def truthy_def Let_def)
  moreover have "split_work M S (uid actor) otherUid ?delta
         myAmount otherAmount (tsr_myShare request) (tsr_theirShare request)
         (tsr_tid request) otherTid (tsr_sid request) ?payer db =
       (let payer = ?payer;
            t1 = payments_addToBalance S (uid actor) otherUid
                   (Money_minus M
                      (transactions_getBalance S (uid actor) otherUid myAmount otherAmount (Some payer))
                      prevBalance) db
        in t1\<lparr>transactions :=
                 map (\<lambda>r. if t_id r = otherTid then r\<lparr>t_amount := Money_string M otherAmount\<rparr>
                           else if t_id r = tsr_tid request then r\<lparr>t_amount := Money_string M myAmount\<rparr>
                           else r) (transactions t1),
               transaction_splits :=
                 map (\<lambda>r. if ts_tid r = otherTid
                           then r\<lparr>ts_share := Money_string M (tsr_theirShare request)\<rparr>
                           else if ts_tid r = tsr_tid request
                           then r\<lparr>ts_share := Money_string M (tsr_myShare request)\<rparr>
                           else r) (transaction_splits t1),
               shared_transactions :=
                 map (\<lambda>r. if s_id r = tsr_sid request then r\<lparr>s_payer := Some payer\<rparr> else r)
                   (shared_transactions t1)\<rparr>)"
    by (auto simp: split_work_def update_transactions_def update_split_share_def
          update_shared_payer_def Let_def)
  ultimately show "handle_transaction_split_post M S request actor db =
      (StatusCode 204,
       (let payer = (if tsr_iPaid request then uid actor else otherUid);
            t1 = payments_addToBalance S (uid actor) otherUid
                   (Money_minus M
                      (transactions_getBalance S (uid actor) otherUid myAmount otherAmount (Some payer))
                      prevBalance) db
        in t1\<lparr>transactions :=
                 map (\<lambda>r. if t_id r = otherTid then r\<lparr>t_amount := Money_string M otherAmount\<rparr>
                           else if t_id r = tsr_tid request then r\<lparr>t_amount := Money_string M myAmount\<rparr>
                           else r) (transactions t1),
               transaction_splits :=
                 map (\<lambda>r. if ts_tid r = otherTid
                           then r\<lparr>ts_share := Money_string M (tsr_theirShare request)\<rparr>
                           else if ts_tid r = tsr_tid request
                           then r\<lparr>ts_share := Money_string M (tsr_myShare request)\<rparr>
                           else r) (transaction_splits t1),
               shared_transactions :=
                 map (\<lambda>r. if s_id r = tsr_sid request then r\<lparr>s_payer := Some payer\<rparr> else r)
                   (shared_transactions t1)\<rparr>))"
    by (simp only:)
qed

lemma resplit_facts:
  "Money_isValid whole_Money (Some False) (tsr_total resplit_request) \<and>
   Money_isValid whole_Money (Some False) (tsr_myShare resplit_request) \<and>
   Money_isValid whole_Money (Some False) (tsr_theirShare resplit_request) \<and>
   tsr_tid resplit_request \<noteq> [] \<and> tsr_sid resplit_request \<noteq> [] \<and>
   distributeTotal some_modules (tsr_total resplit_request) (tsr_myShare resplit_request)
     (tsr_theirShare resplit_request) = (Some 25, Some 75) \<and>
   transactions_getOtherTid some_modules (tsr_tid resplit_request) (tsr_sid resplit_request) ledger =
     Some ''t2'' \<and>
   transactions_getUser some_modules ''t2'' ledger = Some ''bob'' \<and>
   transactions_getBalanceFromDb some_modules (tsr_tid resplit_request) ledger = Some (Some 20)"
  by code_simp

lemma resplit_state:
  "(let payer = (if tsr_iPaid resplit_request then uid \<lparr>uid = ''carol''\<rparr> else ''bob'');
        t1 = payments_addToBalance some_modules (uid \<lparr>uid = ''carol''\<rparr>) ''bob''
               (Money_minus whole_Money
                  (transactions_getBalance some_modules (uid \<lparr>uid = ''carol''\<rparr>) ''bob''
                     (Some 25) (Some 75) (Some payer))
                  (Some 20)) ledger
    in t1\<lparr>transactions :=
             map (\<lambda>r. if t_id r = ''t2'' then r\<lparr>t_amount := Money_string whole_Money (Some 75)\<rparr>
                       else if t_id r = tsr_tid resplit_request
                       then r\<lparr>t_amount := Money_string whole_Money (Some 25)\<rparr>
                       else r) (transactions t1),
           transaction_splits :=
             map (\<lambda>r. if ts_tid r = ''t2''
                       then r\<lparr>ts_share := Money_string whole_Money (tsr_theirShare resplit_request)\<rparr>
                       else if ts_tid r = tsr_tid resplit_request
                       then r\<lparr>ts_share := Money_string whole_Money (tsr_myShare resplit_request)\<rparr>
                       else r) (transaction_splits t1),
           shared_transactions :=
             map (\<lambda>r. if s_id r = tsr_sid resplit_request then r\<lparr>s_payer := Some payer\<rparr> else r)
               (shared_transactions t1)\<rparr>) =
   ledger\<lparr>transactions :=
            [\<lparr>t_id = ''t1'', t_gid = ''ga'', t_frame = 0, t_amount = ''25'', t_description = ''lunch'',
              t_category = Some ''c1'', t_date = ''2019-01-05'', t_alive = True\<rparr>,
             \<lparr>t_id = ''t2'', t_gid = ''gb'', t_frame = 0, t_amount = ''75'', t_description = ''lunch'',
              t_category = None, t_date = ''2019-01-05'', t_alive = True\<rparr>,
             \<lparr>t_id = ''t3'', t_gid = ''ga'', t_frame = 0, t_amount = ''10'', t_description = ''tea'',
              t_category = Some ''c1'', t_date = ''2019-01-06'', t_alive = False\<rparr>],
          transaction_splits :=
            [\<lparr>ts_tid = ''t1'', ts_sid = ''s1'', ts_share = ''1''\<rparr>,
             \<lparr>ts_tid = ''t2'', ts_sid = ''s1'', ts_share = ''3''\<rparr>],
          shared_transactions := [\<lparr>s_id = ''s1'', s_payer = Some ''carol'', s_settled = True\<rparr>],
          other_tables :=
            \<lparr>membership = [(''alice'', ''ga''), (''bob'', ''gb''), (''carol'', ''gc'')],
             friendship = [(''alice'', ''bob''), (''bob'', ''alice'')],
             balances = [((''carol'', ''bob''), Some 55)]\<rparr>\<rparr>"
  by code_simp

theorem split_post_checks_no_ownership_witness:
  "\<not> transactions_canUserEdit some_modules ''t1'' ''carol'' ledger \<and>
   handle_transaction_split_post whole_Money some_modules resplit_request \<lparr>uid = ''carol''\<rparr> ledger =
     (StatusCode 204,
      ledger\<lparr>transactions :=
            [\<lparr>t_id = ''t1'', t_gid = ''ga'', t_frame = 0, t_amount = ''25'', t_description = ''lunch'',
              t_category = Some ''c1'', t_date = ''2019-01-05'', t_alive = True\<rparr>,
             \<lparr>t_id = ''t2'', t_gid = ''gb'', t_frame = 0, t_amount = ''75'', t_description = ''lunch'',
              t_category = None, t_date = ''2019-01-05'', t_alive = True\<rparr>,
             \<lparr>t_id = ''t3'', t_gid = ''ga'', t_frame = 0, t_amount = ''10'', t_description = ''tea'',
              t_category = Some ''c1'', t_date = ''2019-01-06'', t_alive = False\<rparr>],
          transaction_splits :=
            [\<lparr>ts_tid = ''t1'', ts_sid = ''s1'', ts_share = ''1''\<rparr>,
             \<lparr>ts_tid = ''t2'', ts_sid = ''s1'', ts_share = ''3''\<rparr>],
          shared_transactions := [\<lparr>s_id = ''s1'', s_payer = Some ''carol'', s_settled = True\<rparr>],
          other_tables :=
            \<lparr>membership = [(''alice'', ''ga''), (''bob'', ''gb''), (''carol'', ''gc'')],
             friendship = [(''alice'', ''bob''), (''bob'', ''alice'')],
             balances = [((''carol'', ''bob''), Some 55)]\<rparr>\<rparr>)"
  using split_post_checks_no_ownership[where M = whole_Money and S = some_modules
      and request = resplit_request and actor = "\<lparr>uid = ''carol''\<rparr>" and db = ledger
      and g = "user_getDefaultGroup some_modules" and e = "transactions_canUserEdit some_modules"
      and gt = "transactions_getTransaction some_modules" and fr = "user_isFriend some_modules"
      and myAmount = "Some 25" and otherAmount = "Some 75" and otherTid = "''t2''"
      and otherUid = "''bob''" and prevBalance = "Some 20"]
    resplit_facts carol_cannot_edit
  by (simp only: resplit_state simp_thms fst_conv snd_conv)

text \<open>
  C8 as stated fails: total 100 and the shares 1 and 3 are valid and non-negative and both
  ids are non-empty, but no split \<open>zz\<close> links a transaction to \<open>zz\<close>; the lookup of the
  linked transaction finds nothing, the request is rejected and nothing is written. No 204
  is answered.
\<close>

theorem split_post_unknown_transaction_counterexample:
  "Money_isValid whole_Money (Some False) (Some 100) \<and>
   Money_isValid whole_Money (Some False) (Some 1) \<and>
   Money_isValid whole_Money (Some False) (Some 3) \<and>
   transactions_getOtherTid some_modules ''zz'' ''zz'' ledger = None \<and>
   handle_transaction_split_post whole_Money some_modules
     \<lparr>tsr_tid = ''zz'', tsr_sid = ''zz'', tsr_total = Some 100, tsr_myShare = Some 1,
      tsr_theirShare = Some 3, tsr_iPaid = True\<rparr> \<lparr>uid = ''carol''\<rparr> ledger = (Rejected, ledger)"
  by code_simp

lemma transactions_insert_transaction:
  "transactions (insert_transaction i gid frame amount description category date db) =
     transactions db @
       [\<lparr>t_id = i, t_gid = gid, t_frame = frame, t_amount = amount, t_description = description,
         t_category = category, t_date = date, t_alive = True\<rparr>]"
  by (simp add: insert_transaction_def)

lemma transactions_insert_shared_transaction:
  "transactions (insert_shared_transaction sid payer db) = transactions db"
  by (simp add: insert_shared_transaction_def)

lemma transactions_insert_transaction_split:
  "transactions (insert_transaction_split tid sid share db) = transactions db"
  by (simp add: insert_transaction_split_def)

lemma post_tx_mirrored_row:
  assumes "handle_transaction_post_tx M S request actor db = Some (Body tr, db')"
    and "trans_split tr = Some sp"
  shows "transactions db' \<noteq> [] \<and>
         last (transactions db') =
           \<lparr>t_id = randomId S 1, t_gid = friend_gid (split_with sp), t_frame = atr_frame request,
            t_amount = Money_string M (split_otherAmount sp),
            t_description = atr_description request, t_category = None,
            t_date = atr_date request, t_alive = True\<rparr>"
  using assms
  by (auto simp: handle_transaction_post_tx_def Let_def transactions_insert_transaction
        transactions_insert_shared_transaction transactions_insert_transaction_split
        split: option.splits if_splits)

text \<open>
  C9. When \<open>handle_transaction_post\<close> creates a split transaction, the row it inserts for
  the counterparty, the last of the transactions table, has a null category, whatever
  category the request names.
\<close>

theorem mirrored_transaction_has_null_category:
  assumes "handle_transaction_post M S request actor db = (Body tr, db')"
    and "trans_split tr = Some sp"
  shows "transactions db' \<noteq> [] \<and>
         last (transactions db') =
           \<lparr>t_id = randomId S 1, t_gid = friend_gid (split_with sp), t_frame = atr_frame request,
            t_amount = Money_string M (split_otherAmount sp),
            t_description = atr_description request, t_category = None,
            t_date = atr_date request, t_alive = True\<rparr>"
proof -
  from assms(1) have "handle_transaction_post_tx M S request actor db = Some (Body tr, db')"
    by (auto simp: handle_transaction_post_def tx_def split: if_splits option.splits)
  from post_tx_mirrored_row[OF this assms(2)] show ?thesis .
qed

lemma trip_created:
  "fst (handle_transaction_post whole_Money some_modules (trip_request 60) \<lparr>uid = ''alice''\<rparr> ledger) =
     Body trip"
  by code_simp

theorem mirrored_transaction_has_null_category_witness:
  "atr_category (trip_request 60) = Some ''c1'' \<and>
   fst (handle_transaction_post whole_Money some_modules (trip_request 60) \<lparr>uid = ''alice''\<rparr> ledger) =
     Body trip \<and>
   last (transactions (snd (handle_transaction_post whole_Money some_modules (trip_request 60)
                              \<lparr>uid = ''alice''\<rparr> ledger))) =
     \<lparr>t_id = ''id1'', t_gid = ''gb'', t_frame = 0, t_amount = ''40'', t_description = ''trip'',
      t_category = None, t_date = ''2019-01-07'', t_alive = True\<rparr>"
proof -
  have created: "handle_transaction_post whole_Money some_modules (trip_request 60) \<lparr>uid = ''alice''\<rparr> ledger =
      (Body trip, snd (handle_transaction_post whole_Money some_modules (trip_request 60)
                         \<lparr>uid = ''alice''\<rparr> ledger))"
    using trip_created by (simp add: prod_eq_iff)
  have split: "trans_split trip =
      Some \<lparr>split_id = ''id2'', split_with = \<lparr>friend_uid = ''bob'', friend_gid = ''gb''\<rparr>,
             split_settled = False, split_myShare = Some 60, split_theirShare = Some 40,
             split_otherAmount = Some 40, split_payer = Some ''alice''\<rparr>"
    by (simp add: trip_def)
  have strings: "randomId some_modules 1 = ''id1'' \<and> Money_string whole_Money (Some 40) = ''40''"
    by code_simp
  show ?thesis
    using mirrored_transaction_has_null_category[OF created split] trip_created strings
    by (simp add: trip_request_def)
qed

text \<open>
  C2. \<open>handle_transaction_post\<close> answers 400 with the state unchanged whenever the request
  is refused in the specification's sense; otherwise it goes on to the database transaction.
\<close>

theorem handle_transaction_post_validation:
  "(refused M S request \<longrightarrow> handle_transaction_post M S request actor db = (StatusCode 400, db)) \<and>
   (\<not> refused M S request \<longrightarrow>
      handle_transaction_post M S request actor db =
        tx (handle_transaction_post_tx M S request actor) db)"
  by (auto simp: handle_transaction_post_def refused_def reproduces_def Let_def
        split: option.splits prod.splits)

lemma trip_50_refused: "refused whole_Money some_modules (trip_request 50)"
  by code_simp

lemma trip_60_not_refused: "\<not> refused whole_Money some_modules (trip_request 60)"
  by code_simp

lemma trip_60_tx:
  "fst (tx (handle_transaction_post_tx whole_Money some_modules (trip_request 60) \<lparr>uid = ''alice''\<rparr>) ledger) =
     Body trip"
  by code_simp

theorem handle_transaction_post_validation_witness:
  "refused whole_Money some_modules (trip_request 50) \<and>
   handle_transaction_post whole_Money some_modules (trip_request 50) \<lparr>uid = ''alice''\<rparr> ledger =
     (StatusCode 400, ledger) \<and>
   \<not> refused whole_Money some_modules (trip_request 60) \<and>
   fst (handle_transaction_post whole_Money some_modules (trip_request 60) \<lparr>uid = ''alice''\<rparr> ledger) =
     Body trip"
  using handle_transaction_post_validation[of whole_Money some_modules "trip_request 50" "\<lparr>uid = ''alice''\<rparr>" ledger]
    handle_transaction_post_validation[of whole_Money some_modules "trip_request 60" "\<lparr>uid = ''alice''\<rparr>" ledger]
    trip_50_refused trip_60_not_refused trip_60_tx
  by simp

lemma getOrCreateFrameInner_carry_forward:
  assumes "filter (\<lambda>r. f_gid r = gid \<and> f_index r = index \<and> \<not> f_ghost r) (frames db) = []"
    and "getPreviousFrame M gid index (deleteGhost gid index db) = Some (Some prevFrame)"
  shows "\<exists>frame db'.
           getOrCreateFrameInner M C gid index db = Some (frame, db') \<and>
           frame_gid frame = gid \<and> frame_index frame = index \<and> frame_ghost frame \<and>
           frame_income frame = frame_income prevFrame \<and>
           frame_balance frame =
             Some (Money_plus M (getBalance M gid index (deleteGhost gid index db))
                     (frame_income prevFrame)) \<and>
           frame_categories frame =
             Some (map (\<lambda>c. c\<lparr>cat_frame := index\<rparr>)
                     (getCategories M C gid (frame_index prevFrame) (deleteGhost gid index db))) \<and>
           frames db' = frames (deleteGhost gid index db) @
             [\<lparr>f_gid = gid, f_index = index,
               f_income = Money_string M (frame_income prevFrame), f_ghost = True\<rparr>]"
  using assms
  by (simp add: getOrCreateFrameInner_def Let_def insert_frame_def insert_categories_def)

lemma getOrCreateFrameInner_defaults:
  assumes "filter (\<lambda>r. f_gid r = gid \<and> f_index r = index \<and> \<not> f_ghost r) (frames db) = []"
    and "getPreviousFrame M gid index (deleteGhost gid index db) = Some None"
  shows "\<exists>frame db'.
           getOrCreateFrameInner M C gid index db = Some (frame, db') \<and>
           frame_ghost frame \<and> frame_income frame = Money_Zero M \<and>
           frame_categories frame =
             Some (default_categories M C gid index (deleteGhost gid index db)) \<and>
           map cat_name (default_categories M C gid index (deleteGhost gid index db)) =
             DEFAULT_CATEGORIES C \<and>
           map cat_budget (default_categories M C gid index (deleteGhost gid index db)) =
             map (\<lambda>_. Money_Zero M) (DEFAULT_CATEGORIES C)"
proof -
  have "map cat_name (default_categories M C gid index (deleteGhost gid index db)) =
          map snd (enumerate 0 (DEFAULT_CATEGORIES C))"
    by (simp add: default_categories_def Let_def comp_def case_prod_unfold)
  then have names: "map cat_name (default_categories M C gid index (deleteGhost gid index db)) =
                      DEFAULT_CATEGORIES C"
    by simp
  have "map cat_budget (default_categories M C gid index (deleteGhost gid index db)) =
          map (\<lambda>_. Money_Zero M) (enumerate 0 (DEFAULT_CATEGORIES C))"
    by (simp add: default_categories_def Let_def comp_def case_prod_unfold)
  then have budgets: "map cat_budget (default_categories M C gid index (deleteGhost gid index db)) =
                        map (\<lambda>_. Money_Zero M) (DEFAULT_CATEGORIES C)"
    by (simp add: map_replicate_const)
  show ?thesis
    using assms names budgets
    by (simp add: getOrCreateFrameInner_def Let_def insert_frame_def insert_categories_def)
qed

text \<open>
  C4. A frame requested for the first time is to carry the categories of the previous frame
  over with their names and budgets and with the spending counted for the new frame, as the
  branch for default categories and the branch for a persisted frame count it. At this input
  the code does otherwise: group \<open>ga\<close> has frame 0 with category \<open>c1\<close> of budget 100
  and a spending of 30 in frame 0 and of 0 in frame 1; the frame synthesized for index 1
  returns \<open>c1\<close> re-pointed to frame 1 with balance 70, the balance of frame 0.
\<close>

theorem ghost_categories_keep_previous_balance:
  "map_option (\<lambda>r. map_option (map (\<lambda>c. (cat_id c, cat_frame c, cat_budget c, cat_balance c)))
                      (frame_categories (fst r)))
     (getOrCreateFrameInner whole_Money some_modules ''ga'' 1 ledger) =
     Some (Some [(''c0'', 1, Some 500, Some (Some 500)), (''c1'', 1, Some 100, Some (Some 70))]) \<and>
   categories_getSpending some_modules ''c1'' 1 (deleteGhost ''ga'' 1 ledger) = Some 0 \<and>
   categories_getSpending some_modules ''c1'' 0 (deleteGhost ''ga'' 1 ledger) = Some 30"
  by code_simp

end
